theory Spec2Isabelle
  imports Main
begin

section \<open>The standard hash map underneath the dictionary\<close>

text \<open>
  \<^verbatim>\<open>Dictionary<Key, Value>\<close> owns one \<^verbatim>\<open>std::unordered_map<Key, Value> data\<close> and every
  method is a call into it. The hash map is modelled as the sequence of its entries in
  iteration order. Which order that is, is left open by the C++ standard; the model appends a
  new entry at the end and no theorem below depends on the position. A hash map with unique
  keys never holds two entries with the same key.
\<close>

type_synonym ('k, 'v) unordered_map = "('k \<times> 'v) list"

definition unique_keys :: "('k, 'v) unordered_map \<Rightarrow> bool" where
  "unique_keys m = distinct (map fst m)"

text \<open>\<^verbatim>\<open>find(key)\<close>: the entry with that key, \<open>None\<close> for \<^verbatim>\<open>end()\<close>.\<close>

fun um_find :: "('k, 'v) unordered_map \<Rightarrow> 'k \<Rightarrow> 'v option" where
  "um_find [] key = None"
| "um_find ((a, b) # m) key = (if a = key then Some b else um_find m key)"

text \<open>
  \<^verbatim>\<open>operator[](key)\<close>: when the key is absent, an entry with a value-initialised
  \<^verbatim>\<open>Value()\<close> is added first. The result is the value the returned reference designates,
  with the map after the call.
\<close>

definition um_subscript :: "('k, 'v::default) unordered_map \<Rightarrow> 'k \<Rightarrow> 'v \<times> ('k, 'v) unordered_map" where
  "um_subscript m key =
     (case um_find m key of
        None \<Rightarrow> (default, m @ [(key, default)])
      | Some v \<Rightarrow> (v, m))"

text \<open>Assignment through the reference that \<^verbatim>\<open>operator[](key)\<close> returned.\<close>

definition um_assign :: "('k, 'v) unordered_map \<Rightarrow> 'k \<Rightarrow> 'v \<Rightarrow> ('k, 'v) unordered_map" where
  "um_assign m key value = map (\<lambda>(a, b). if a = key then (a, value) else (a, b)) m"

text \<open>
  \<^verbatim>\<open>insert(pair)\<close> of a map with unique keys adds the pair if and only if no entry has an
  equivalent key; the constructor from a range inserts the elements of the range one by one.
\<close>

definition um_insert :: "('k, 'v) unordered_map \<Rightarrow> 'k \<times> 'v \<Rightarrow> ('k, 'v) unordered_map" where
  "um_insert m p = (case um_find m (fst p) of None \<Rightarrow> m @ [p] | Some _ \<Rightarrow> m)"

definition um_from_range :: "('k \<times> 'v) list \<Rightarrow> ('k, 'v) unordered_map" where
  "um_from_range init = foldl um_insert [] init"

text \<open>\<^verbatim>\<open>erase(key)\<close> removes the entries with that key and returns how many there were.\<close>

definition um_erase :: "('k, 'v) unordered_map \<Rightarrow> 'k \<Rightarrow> nat \<times> ('k, 'v) unordered_map" where
  "um_erase m key =
     (length (filter (\<lambda>p. fst p = key) m), filter (\<lambda>p. fst p \<noteq> key) m)"


section \<open>The dictionary\<close>

record ('k, 'v) Dictionary =
  data :: "('k, 'v) unordered_map"

text \<open>The only failure of the class: \<^verbatim>\<open>std::out_of_range("Key not found in dictionary")\<close>.\<close>

datatype error = OutOfRange string

instantiation int :: default
begin
definition default_int :: int where "default_int = 0"
instance ..
end

instantiation list :: (type) default
begin
definition default_list :: "'a list" where "default_list = []"
instance ..
end

definition Dictionary_empty :: "('k, 'v) Dictionary" where
  "Dictionary_empty = \<lparr>data = []\<rparr>"

definition Dictionary_init :: "('k \<times> 'v) list \<Rightarrow> ('k, 'v) Dictionary" where
  "Dictionary_init init = \<lparr>data = um_from_range init\<rparr>"

text \<open>
  The three overloads of \<^verbatim>\<open>insert\<close> differ in copying or moving their arguments only; each
  is \<^verbatim>\<open>data[key] = value\<close>.
\<close>

definition insert_dict :: "('k, 'v::default) Dictionary \<Rightarrow> 'k \<Rightarrow> 'v \<Rightarrow> ('k, 'v) Dictionary" where
  "insert_dict d key value = d\<lparr>data := um_assign (snd (um_subscript (data d) key)) key value\<rparr>"

definition get :: "('k, 'v) Dictionary \<Rightarrow> 'k \<Rightarrow> 'v option" where
  "get d key = (case um_find (data d) key of Some v \<Rightarrow> Some v | None \<Rightarrow> None)"

definition contains :: "('k, 'v) Dictionary \<Rightarrow> 'k \<Rightarrow> bool" where
  "contains d key = (um_find (data d) key \<noteq> None)"

definition remove :: "('k, 'v) Dictionary \<Rightarrow> 'k \<Rightarrow> bool \<times> ('k, 'v) Dictionary" where
  "remove d key = (case um_erase (data d) key of (n, m) \<Rightarrow> (n > 0, d\<lparr>data := m\<rparr>))"

definition clear :: "('k, 'v) Dictionary \<Rightarrow> ('k, 'v) Dictionary" where
  "clear d = d\<lparr>data := []\<rparr>"

text \<open>
  \<^verbatim>\<open>size()\<close> is a \<^verbatim>\<open>size_t\<close>; the number of entries is bounded by the memory that holds
  them, far below the width of that type, so it is a natural number here.
\<close>

definition size_dict :: "('k, 'v) Dictionary \<Rightarrow> nat" where
  "size_dict d = length (data d)"

definition empty_dict :: "('k, 'v) Dictionary \<Rightarrow> bool" where
  "empty_dict d = (data d = [])"

text \<open>\<^verbatim>\<open>keys\<close> and \<^verbatim>\<open>values\<close>: one traversal each, pushing the component of every entry.\<close>

fun keys_loop :: "('k, 'v) unordered_map \<Rightarrow> 'k list \<Rightarrow> 'k list" where
  "keys_loop [] result = result"
| "keys_loop (pair # m) result = keys_loop m (result @ [fst pair])"

fun values_loop :: "('k, 'v) unordered_map \<Rightarrow> 'v list \<Rightarrow> 'v list" where
  "values_loop [] result = result"
| "values_loop (pair # m) result = values_loop m (result @ [snd pair])"

definition keys :: "('k, 'v) Dictionary \<Rightarrow> 'k list" where
  "keys d = keys_loop (data d) []"

definition values_dict :: "('k, 'v) Dictionary \<Rightarrow> 'v list" where
  "values_dict d = values_loop (data d) []"

text \<open>Mutable \<^verbatim>\<open>operator[]\<close>: \<^verbatim>\<open>return data[key]\<close>.\<close>

definition subscript :: "('k, 'v::default) Dictionary \<Rightarrow> 'k \<Rightarrow> 'v \<times> ('k, 'v) Dictionary" where
  "subscript d key = (case um_subscript (data d) key of (v, m) \<Rightarrow> (v, d\<lparr>data := m\<rparr>))"

text \<open>\<^verbatim>\<open>dict[key] = value\<close>: a write through the reference of the mutable \<^verbatim>\<open>operator[]\<close>.\<close>

definition subscript_assign :: "('k, 'v::default) Dictionary \<Rightarrow> 'k \<Rightarrow> 'v \<Rightarrow> ('k, 'v) Dictionary" where
  "subscript_assign d key value =
     (case subscript d key of (_, d') \<Rightarrow> d'\<lparr>data := um_assign (data d') key value\<rparr>)"

text \<open>Read-only \<^verbatim>\<open>operator[]\<close>: throws when the key is not found.\<close>

definition subscript_const :: "('k, 'v) Dictionary \<Rightarrow> 'k \<Rightarrow> error + 'v" where
  "subscript_const d key =
     (case um_find (data d) key of
        Some v \<Rightarrow> Inr v
      | None \<Rightarrow> Inl (OutOfRange ''Key not found in dictionary''))"





text \<open>
  The state invariant: the hash map never holds a key twice. Both constructors establish it
  and every method keeps it.
\<close>

definition valid :: "('k, 'v) Dictionary \<Rightarrow> bool" where
  "valid d = unique_keys (data d)"

section \<open>Calls and sequences of calls\<close>

text \<open>
  One call of a method on a dictionary: either the exception it throws, or what it returns
  together with the dictionary after the call. Methods declared \<^verbatim>\<open>const\<close> hand the dictionary
  back as it was.
\<close>

datatype ('k, 'v) operation =
    Insert 'k 'v
  | Get 'k
  | Contains 'k
  | Remove 'k
  | Clear
  | Size
  | Empty
  | Keys
  | Values
  | Subscript 'k
  | SubscriptAssign 'k 'v
  | SubscriptConst 'k

datatype ('k, 'v) returned =
    Nothing
  | Optional "'v option"
  | Bool bool
  | Count nat
  | KeyVector "'k list"
  | ValueVector "'v list"
  | Reference 'v

fun call :: "('k, 'v::default) Dictionary \<Rightarrow> ('k, 'v) operation
    \<Rightarrow> error + (('k, 'v) returned \<times> ('k, 'v) Dictionary)" where
  "call d (Insert key value) = Inr (Nothing, insert_dict d key value)"
| "call d (Get key) = Inr (Optional (get d key), d)"
| "call d (Contains key) = Inr (Bool (contains d key), d)"
| "call d (Remove key) = (case remove d key of (b, d') \<Rightarrow> Inr (Bool b, d'))"
| "call d Clear = Inr (Nothing, clear d)"
| "call d Size = Inr (Count (size_dict d), d)"
| "call d Empty = Inr (Bool (empty_dict d), d)"
| "call d Keys = Inr (KeyVector (keys d), d)"
| "call d Values = Inr (ValueVector (values_dict d), d)"
| "call d (Subscript key) = (case subscript d key of (v, d') \<Rightarrow> Inr (Reference v, d'))"
| "call d (SubscriptAssign key value) = Inr (Nothing, subscript_assign d key value)"
| "call d (SubscriptConst key) =
     (case subscript_const d key of Inl e \<Rightarrow> Inl e | Inr v \<Rightarrow> Inr (Reference v, d))"

text \<open>
  A sequence of calls. A call that throws has not touched the dictionary, so a caller that
  catches the exception goes on with the dictionary as it was.
\<close>

definition step :: "('k, 'v::default) Dictionary \<Rightarrow> ('k, 'v) operation \<Rightarrow> ('k, 'v) Dictionary" where
  "step d m = (case call d m of Inl _ \<Rightarrow> d | Inr (_, d') \<Rightarrow> d')"

fun run :: "('k, 'v::default) Dictionary \<Rightarrow> ('k, 'v) operation list \<Rightarrow> ('k, 'v) Dictionary" where
  "run d [] = d"
| "run d (m # ms) = run (step d m) ms"









section \<open>Facts about the hash map operations\<close>

lemma um_find_map_of: "um_find m key = map_of m key"
  by (induction m) auto

lemma um_find_None_iff: "(um_find m key = None) = (key \<notin> fst ` set m)"
  by (simp add: um_find_map_of map_of_eq_None_iff)



lemma um_find_append:
  "um_find (m @ n) key = (case um_find m key of None \<Rightarrow> um_find n key | Some v \<Rightarrow> Some v)"
  by (induction m) auto

lemma um_find_assign:
  "um_find (um_assign m key value) k =
     (if k = key then (case um_find m key of None \<Rightarrow> None | Some _ \<Rightarrow> Some value)
      else um_find m k)"
  by (induction m) (auto simp: um_assign_def)


lemma keys_um_assign: "map fst (um_assign m key value) = map fst m"
  by (induction m) (auto simp: um_assign_def)

lemma unique_um_assign: "unique_keys (um_assign m key value) = unique_keys m"
  by (simp add: unique_keys_def keys_um_assign)

lemma um_find_erase:
  "um_find (snd (um_erase m key)) k = (if k = key then None else um_find m k)"
  by (induction m) (auto simp: um_erase_def)

lemma length_um_erase: "length (snd (um_erase m key)) + fst (um_erase m key) = length m"
  by (induction m) (auto simp: um_erase_def)

lemma unique_um_erase: "unique_keys m \<Longrightarrow> unique_keys (snd (um_erase m key))"
  by (simp add: unique_keys_def um_erase_def distinct_map_filter)

lemma count_um_erase:
  "unique_keys m \<Longrightarrow> fst (um_erase m key) = (if um_find m key = None then 0 else 1)"
proof (induction m)
  case Nil
  then show ?case by (simp add: um_erase_def)
next
  case (Cons p m)
  obtain a b where p: "p = (a, b)" by (cases p)
  from Cons.prems have u: "unique_keys m" and fresh: "a \<notin> fst ` set m"
    by (simp_all add: unique_keys_def p)
  show ?case
  proof (cases "a = key")
    case True
    with fresh have "um_find m key = None" by (simp add: um_find_None_iff)
    with Cons.IH [OF u] True show ?thesis by (simp add: um_erase_def p)
  next
    case False
    with Cons.IH [OF u] show ?thesis by (simp add: um_erase_def p)
  qed
qed

lemma um_find_subscript:
  "um_find (snd (um_subscript m key)) k =
     (if k = key then Some (fst (um_subscript m key)) else um_find m k)"
  by (auto simp: um_subscript_def um_find_append split: option.splits)


lemma unique_um_subscript: "unique_keys m \<Longrightarrow> unique_keys (snd (um_subscript m key))"
  by (auto simp: um_subscript_def unique_keys_def um_find_None_iff split: option.splits)



















section \<open>Facts about the methods and about sequences of calls\<close>

lemma data_insert_dict:
  "data (insert_dict d key value) = um_assign (snd (um_subscript (data d) key)) key value"
  by (simp add: insert_dict_def)

lemma data_subscript: "data (snd (subscript d key)) = snd (um_subscript (data d) key)"
  by (simp add: subscript_def split_beta)

lemma data_subscript_assign:
  "data (subscript_assign d key value) = um_assign (snd (um_subscript (data d) key)) key value"
  by (simp add: subscript_assign_def subscript_def split_beta)

lemma data_remove: "data (snd (remove d key)) = snd (um_erase (data d) key)"
  by (simp add: remove_def split_beta)


lemma valid_Dictionary_empty: "valid Dictionary_empty"
  by (simp add: valid_def Dictionary_empty_def unique_keys_def)


lemma step_cases:
  "step d (Insert key value) = insert_dict d key value"
  "step d (Get key) = d"
  "step d (Contains key) = d"
  "step d (Remove key) = snd (remove d key)"
  "step d Clear = clear d"
  "step d Size = d"
  "step d Empty = d"
  "step d Keys = d"
  "step d Values = d"
  "step d (Subscript key) = snd (subscript d key)"
  "step d (SubscriptAssign key value) = subscript_assign d key value"
  "step d (SubscriptConst key) = d"
  by (simp_all add: step_def split_beta split: sum.splits)

lemma valid_step: "valid d \<Longrightarrow> valid (step d m)"
  by (cases m)
    (simp_all add: step_cases valid_def data_insert_dict data_subscript data_subscript_assign
      data_remove clear_def unique_um_assign unique_um_subscript unique_um_erase,
      simp add: unique_keys_def)

lemma valid_run: "valid d \<Longrightarrow> valid (run d ms)"
  by (induction ms arbitrary: d) (simp_all add: valid_step)




section \<open>Insertion\<close>



section \<open>Read-only subscript access\<close>

text \<open>
  C2: read-only subscript access on a key throws the key-not-found failure if and only if the
  key is absent, and in either case the dictionary after the call is the dictionary before
  it; \<^verbatim>\<open>get\<close> and the mutable subscript access never fail.
\<close>

theorem readonly_subscript:
  "(call d (SubscriptConst k) = Inl (OutOfRange ''Key not found in dictionary''))
      = (\<not> contains d k)
   \<and> ((\<exists>e. call d (SubscriptConst k) = Inl e) = (\<not> contains d k))
   \<and> (\<forall>r d'. call d (SubscriptConst k) = Inr (r, d')
        \<longrightarrow> d' = d \<and> (\<exists>v. r = Reference v \<and> get d k = Some v))
   \<and> step d (SubscriptConst k) = d
   \<and> call d (Get k) = Inr (Optional (get d k), d)
   \<and> (\<forall>e. call d (Get k) \<noteq> Inl e)
   \<and> call d (Subscript k) = Inr (Reference (fst (subscript d k)), snd (subscript d k))
   \<and> (\<forall>e. call d (Subscript k) \<noteq> Inl e)"
  by (auto simp: subscript_const_def contains_def get_def step_cases split_beta
      split: option.splits)

theorem readonly_subscript_witness:
  "\<not> contains (Dictionary_init [(''a'', 1::int)]) ''z''
   \<and> call (Dictionary_init [(''a'', 1::int)]) (SubscriptConst ''z'')
       = Inl (OutOfRange ''Key not found in dictionary'')
   \<and> call (Dictionary_init [(''a'', 1::int)]) (SubscriptConst ''a'')
       = Inr (Reference 1, Dictionary_init [(''a'', 1)])
   \<and> call (Dictionary_init [(''a'', 1::int)]) (Get ''z'')
       = Inr (Optional None, Dictionary_init [(''a'', 1)])"
  using readonly_subscript [of "Dictionary_init [(''a'', 1::int)]" "''z''"]
    readonly_subscript [of "Dictionary_init [(''a'', 1::int)]" "''a''"]
  by (simp add: Dictionary_init_def um_from_range_def um_insert_def contains_def get_def
      subscript_const_def)

section \<open>Construction from a sequence of pairs\<close>




section \<open>Mutable subscript access\<close>



section \<open>Equality\<close>




section \<open>Removal\<close>

text \<open>
  C6: \<^verbatim>\<open>remove(k)\<close> on a present key deletes its association, so that \<open>k\<close> is no longer
  contained and the size is one less, and returns true; on an absent key it returns false
  and leaves the dictionary as it was.
\<close>

theorem remove_present_absent:
  assumes "valid d"
  shows "fst (remove d k) = contains d k
    \<and> \<not> contains (snd (remove d k)) k
    \<and> size_dict (snd (remove d k)) + (if contains d k then 1 else 0) = size_dict d
    \<and> (\<not> contains d k \<longrightarrow> snd (remove d k) = d)"
proof -
  from assms have u: "unique_keys (data d)" by (simp add: valid_def)
  have r: "remove d k = (fst (um_erase (data d) k) > 0, d\<lparr>data := snd (um_erase (data d) k)\<rparr>)"
    by (simp add: remove_def split_beta)
  have c: "fst (um_erase (data d) k) = (if contains d k then 1 else 0)"
    using count_um_erase [OF u, of k] by (simp add: contains_def)
  have "\<not> contains d k \<Longrightarrow> snd (um_erase (data d) k) = data d"
    by (auto simp: contains_def um_find_None_iff um_erase_def filter_id_conv)
  then show ?thesis
    using c length_um_erase [of "data d" k]
    by (auto simp: r contains_def size_dict_def um_find_erase)
qed

theorem remove_present_absent_witness:
  "valid (Dictionary_init [(''one'', 1::int), (''two'', 2), (''three'', 3)])
   \<and> contains (Dictionary_init [(''one'', 1::int), (''two'', 2), (''three'', 3)]) ''one''
   \<and> fst (remove (Dictionary_init [(''one'', 1::int), (''two'', 2), (''three'', 3)]) ''one'')
   \<and> size_dict
       (snd (remove (Dictionary_init [(''one'', 1::int), (''two'', 2), (''three'', 3)]) ''one''))
       = 2
   \<and> \<not> contains (Dictionary_init [(''one'', 1::int), (''two'', 2), (''three'', 3)]) ''nonexistent''
   \<and> \<not> fst (remove (Dictionary_init [(''one'', 1::int), (''two'', 2), (''three'', 3)])
         ''nonexistent'')
   \<and> snd (remove (Dictionary_init [(''one'', 1::int), (''two'', 2), (''three'', 3)])
         ''nonexistent'')
       = Dictionary_init [(''one'', 1::int), (''two'', 2), (''three'', 3)]"
proof -
  have v: "valid (Dictionary_init [(''one'', 1::int), (''two'', 2), (''three'', 3)])"
    by (simp add: valid_def unique_keys_def Dictionary_init_def um_from_range_def um_insert_def)
  have c: "contains (Dictionary_init [(''one'', 1::int), (''two'', 2), (''three'', 3)]) ''one''"
    "\<not> contains (Dictionary_init [(''one'', 1::int), (''two'', 2), (''three'', 3)]) ''nonexistent''"
    "size_dict (Dictionary_init [(''one'', 1::int), (''two'', 2), (''three'', 3)]) = 3"
    by (simp_all add: contains_def size_dict_def Dictionary_init_def um_from_range_def
        um_insert_def)
  show ?thesis
    using v c remove_present_absent [OF v, of "''one''"]
      remove_present_absent [OF v, of "''nonexistent''"]
    by simp
qed

section \<open>The size over a sequence of calls\<close>




section \<open>Clearing and emptiness\<close>

text \<open>
  C8: right after \<^verbatim>\<open>clear()\<close> the dictionary holds no association, \<^verbatim>\<open>empty()\<close> is true and
  \<^verbatim>\<open>size()\<close> is 0; and in every state \<^verbatim>\<open>empty()\<close> is true exactly when \<^verbatim>\<open>size()\<close> is 0.
\<close>

theorem clear_empty_size:
  "data (clear d) = [] \<and> empty_dict (clear d) \<and> size_dict (clear d) = 0
   \<and> (\<forall>k. \<not> contains (clear d) k \<and> get (clear d) k = None)
   \<and> (empty_dict d' = (size_dict d' = 0))"
  by (simp add: clear_def empty_dict_def size_dict_def contains_def get_def)


section \<open>Keys and values\<close>



section \<open>Other keys are left alone\<close>

text \<open>
  C10: for distinct keys \<open>k\<close> and \<open>k'\<close>, \<^verbatim>\<open>insert(k, v)\<close>, \<^verbatim>\<open>remove(k)\<close> and mutable subscript
  access on \<open>k\<close> leave \<^verbatim>\<open>get(k')\<close> and \<^verbatim>\<open>contains(k')\<close> as they were.
\<close>

theorem frame_other_key:
  assumes "k \<noteq> k'"
  shows "get (insert_dict d k v) k' = get d k' \<and> contains (insert_dict d k v) k' = contains d k'
    \<and> get (snd (remove d k)) k' = get d k' \<and> contains (snd (remove d k)) k' = contains d k'
    \<and> get (snd (subscript d k)) k' = get d k'
    \<and> contains (snd (subscript d k)) k' = contains d k'"
  using assms
  by (simp add: get_def contains_def data_insert_dict data_remove data_subscript
      um_find_assign um_find_subscript um_find_erase)

theorem frame_other_key_witness:
  "''a'' \<noteq> ''b''
   \<and> get (Dictionary_init [(''a'', 1::int), (''b'', 2)]) ''b'' = Some 2
   \<and> get (insert_dict (Dictionary_init [(''a'', 1::int), (''b'', 2)]) ''a'' 7) ''b'' = Some 2
   \<and> get (snd (remove (Dictionary_init [(''a'', 1::int), (''b'', 2)]) ''a'')) ''b'' = Some 2
   \<and> get (snd (subscript (Dictionary_init [(''a'', 1::int), (''b'', 2)]) ''a'')) ''b'' = Some 2
   \<and> contains (snd (remove (Dictionary_init [(''a'', 1::int), (''b'', 2)]) ''a'')) ''b''"
proof -
  have n: "''a'' \<noteq> ''b''" by simp
  have g: "get (Dictionary_init [(''a'', 1::int), (''b'', 2)]) ''b'' = Some 2"
    "contains (Dictionary_init [(''a'', 1::int), (''b'', 2)]) ''b''"
    by (simp_all add: get_def contains_def Dictionary_init_def um_from_range_def um_insert_def)
  show ?thesis
    using n g frame_other_key [OF n, of "Dictionary_init [(''a'', 1::int), (''b'', 2)]" 7]
    by simp
qed

end
